theory Spec2Isabelle
  imports Main "HOL-Library.Sublist"
begin

section \<open>JavaScript strings and numbers used by the query text editor\<close>

text \<open>
  The component \<open>QueryTextEditor\<close> (query_text_editor.tsx) parses error texts with the string
  methods of JavaScript. A JavaScript string is a sequence of UTF-16 code units; here it is a
  \<open>string\<close>, one \<open>char\<close> for one code unit, which covers the code units below 256. Every
  character the component looks for (space, colon, brackets, digits, line feed) is among them.
\<close>

text \<open>The white space that \<open>String.prototype.trim\<close> and \<open>parseInt\<close> skip (below 256).\<close>

definition isWhiteSpace :: "char \<Rightarrow> bool" where
  "isWhiteSpace c = (c \<in> set [CHR 0x09, CHR 0x0A, CHR 0x0B, CHR 0x0C, CHR 0x0D, CHR 0x20, CHR 0xA0])"

definition trim :: "string \<Rightarrow> string" where
  "trim s = rev (dropWhile isWhiteSpace (rev (dropWhile isWhiteSpace s)))"

definition startsWith :: "string \<Rightarrow> string \<Rightarrow> bool" where
  "startsWith s p = (take (length p) s = p)"

text \<open>\<open>s.split(sep)\<close> for a separator of one character: never empty, \<open>''''.split(sep) = ['''']\<close>.\<close>

fun split :: "char \<Rightarrow> string \<Rightarrow> string list" where
  "split sep [] = [[]]"
| "split sep (c # cs) =
     (let r = split sep cs in if c = sep then [] # r else (c # hd r) # tl r)"

text \<open>
  \<open>lines.join(sep)\<close> for a separator of one character: the text of a model whose lines are
  \<open>lines\<close> is \<open>join CHR 0x0A lines\<close>.
\<close>

fun join :: "char \<Rightarrow> string list \<Rightarrow> string" where
  "join sep [] = []"
| "join sep [x] = x"
| "join sep (x # y # ys) = x @ sep # join sep (y # ys)"

text \<open>\<open>s.indexOf(p)\<close>: the least offset at which \<open>p\<close> occurs in \<open>s\<close>, or \<open>-1\<close>.\<close>

fun indexOf_from :: "string \<Rightarrow> string \<Rightarrow> int \<Rightarrow> int" where
  "indexOf_from [] p k = (if p = [] then k else - 1)"
| "indexOf_from (c # cs) p k =
     (if startsWith (c # cs) p then k else indexOf_from cs p (k + 1))"

definition indexOf :: "string \<Rightarrow> string \<Rightarrow> int" where
  "indexOf s p = indexOf_from s p 0"

text \<open>\<open>s.lastIndexOf(p)\<close>: the greatest offset at which \<open>p\<close> occurs in \<open>s\<close>, or \<open>-1\<close>.\<close>

fun lastIndexOf_from :: "string \<Rightarrow> string \<Rightarrow> int \<Rightarrow> int \<Rightarrow> int" where
  "lastIndexOf_from [] p k best = (if p = [] then k else best)"
| "lastIndexOf_from (c # cs) p k best =
     lastIndexOf_from cs p (k + 1) (if startsWith (c # cs) p then k else best)"

definition lastIndexOf :: "string \<Rightarrow> string \<Rightarrow> int" where
  "lastIndexOf s p = lastIndexOf_from s p 0 (- 1)"

text \<open>
  \<open>s.substring(start, end)\<close>: both arguments are clamped to \<open>0 .. s.length\<close> and swapped when
  \<open>start > end\<close>.
\<close>

definition substring :: "string \<Rightarrow> int \<Rightarrow> int \<Rightarrow> string" where
  "substring s start fin =
     (let len = int (length s);
          a = max 0 (min start len);
          b = max 0 (min fin len);
          lo = min a b;
          hi = max a b
      in take (nat (hi - lo)) (drop (nat lo) s))"

text \<open>
  The numbers the parser handles: an integer, \<open>NaN\<close> (what \<open>parseInt\<close> gives without digits) or
  \<open>undefined\<close> (a destructured array element that is not there). Integers are unbounded here;
  a JavaScript number is a double, exact up to \<open>2^53\<close>.
\<close>

datatype jsnum = Undefined | NaN | Num int

fun js_add :: "jsnum \<Rightarrow> jsnum \<Rightarrow> jsnum" where
  "js_add (Num a) (Num b) = Num (a + b)"
| "js_add _ _ = NaN"

fun js_sub :: "jsnum \<Rightarrow> jsnum \<Rightarrow> jsnum" where
  "js_sub (Num a) (Num b) = Num (a - b)"
| "js_sub _ _ = NaN"

text \<open>\<open>ToIntegerOrInfinity\<close> as \<open>substring\<close> applies it to its argument.\<close>

fun toInteger :: "jsnum \<Rightarrow> int" where
  "toInteger (Num a) = a"
| "toInteger _ = 0"

text \<open>\<open>xs[v]\<close>: \<open>None\<close> stands for \<open>undefined\<close>, the value of a read outside the array.\<close>

fun js_index :: "'a list \<Rightarrow> jsnum \<Rightarrow> 'a option" where
  "js_index xs (Num i) = (if 0 \<le> i \<and> i < int (length xs) then Some (xs ! nat i) else None)"
| "js_index xs _ = None"

definition isDigit :: "char \<Rightarrow> bool" where
  "isDigit c = (48 \<le> (of_char c :: nat) \<and> (of_char c :: nat) \<le> 57)"

definition digitVal :: "char \<Rightarrow> int" where
  "digitVal c = int (of_char c) - 48"

text \<open>
  \<open>parseInt(s, 10)\<close>: leading white space is skipped, one sign is read, then the longest run of
  decimal digits; what follows is ignored, and no digit at all gives \<open>NaN\<close>.
\<close>

definition parseInt :: "string \<Rightarrow> jsnum" where
  "parseInt s =
     (let t = dropWhile isWhiteSpace s;
          sgn = (if t \<noteq> [] \<and> hd t = CHR ''-'' then - 1 else 1 :: int);
          u = (if t \<noteq> [] \<and> (hd t = CHR ''-'' \<or> hd t = CHR ''+'') then tl t else t);
          z = takeWhile isDigit u
      in if z = [] then NaN else Num (sgn * foldl (\<lambda>a c. 10 * a + digitVal c) 0 z))"

text \<open>
  The tokens of a text in the words of the specification, "whitespace-separated": the maximal
  runs of characters that are not white space. This is not what the component computes (it
  calls \<open>split\<close> with one space); it is here to be compared with it.
\<close>

fun tokens_from :: "string \<Rightarrow> string \<Rightarrow> string list" where
  "tokens_from [] cur = (if cur = [] then [] else [cur])"
| "tokens_from (c # cs) cur =
     (if isWhiteSpace c then (if cur = [] then tokens_from cs [] else cur # tokens_from cs [])
      else tokens_from cs (cur @ [c]))"

definition whitespace_separated_tokens :: "string \<Rightarrow> string list" where
  "whitespace_separated_tokens s = tokens_from s []"

section \<open>The diagnostic parser\<close>

datatype error = TypeError | SyntaxError

datatype MarkerSeverity = Hint | Info | Warning | Error

record IMarkerData =
  startLineNumber :: jsnum
  endLineNumber :: jsnum
  startColumn :: jsnum
  endColumn :: jsnum
  message :: string
  severity :: MarkerSeverity

text \<open>
  The loop of \<open>handleNotFound\<close> over the lines of the buffer: \<open>i\<close> counts the lines from 0, and
  every line that contains \<open>errStr\<close> overwrites \<open>(line, pos)\<close>.
\<close>

fun handleNotFound_loop :: "string list \<Rightarrow> string \<Rightarrow> int \<Rightarrow> int \<times> int \<Rightarrow> int \<times> int" where
  "handleNotFound_loop [] errStr i (line, pos) = (line, pos)"
| "handleNotFound_loop (text # texts) errStr i (line, pos) =
     (let indx = indexOf text errStr
      in handleNotFound_loop texts errStr (i + 1)
           (if indx \<noteq> - 1 then (i + 1, indx) else (line, pos)))"

text \<open>
  \<open>handleNotFound(response)\<close>. The argument \<open>ed\<close> is \<open>this.editor\<close>: \<open>None\<close> while it is
  undefined, otherwise the text of the editor's model. The result is \<open>Inr None\<close> when the
  method returns without setting markers, \<open>Inr (Some m)\<close> when it calls \<open>setModelMarkers\<close>
  with the one marker \<open>m\<close>, and \<open>Inl TypeError\<close> when \<open>split\<close> is called on \<open>undefined\<close>, the
  4th element of an array with fewer than four elements (or \<open>getModel\<close> on an undefined
  editor). The method is \<open>async\<close>: the TypeError rejects the promise it returns.
\<close>

definition handleNotFound :: "string \<Rightarrow> string option \<Rightarrow> error + IMarkerData option" where
  "handleNotFound response0 ed =
     (let prompt = ''Not found:'';
          response = trim response0
      in if \<not> startsWith response prompt then Inr None
         else
           let body = response
           in case js_index (split CHR '' '' response) (Num 3) of
                None \<Rightarrow> Inl TypeError
              | Some tok \<Rightarrow>
                  let errStr = last (split CHR '':'' tok)
                  in case ed of
                       None \<Rightarrow> Inl TypeError
                     | Some val \<Rightarrow>
                         let texts = split CHR 0x0A val;
                             (line, pos) = handleNotFound_loop texts errStr 0 (- 1, - 1);
                             startPos = pos;
                             endPos = pos + int (length errStr)
                         in Inr (Some \<lparr>startLineNumber = Num line, endLineNumber = Num line,
                               startColumn = Num startPos, endColumn = Num endPos,
                               message = body, severity = Error\<rparr>))"

text \<open>
  \<open>handleSyntaxError(response)\<close>. \<open>Inl TypeError\<close> is the call of \<open>substring\<close> on \<open>undefined\<close>,
  when \<open>line - 1\<close> is not an index of the array of lines (or \<open>getModel\<close> on an undefined
  editor).
\<close>

definition handleSyntaxError :: "string \<Rightarrow> string option \<Rightarrow> error + IMarkerData option" where
  "handleSyntaxError response0 ed =
     (let prompt = ''Syntax error:'';
          response = trim response0
      in if \<not> startsWith response prompt then Inr None
         else
           let body = substring response (int (length prompt)) (lastIndexOf response ''at'');
               posStr = substring response (lastIndexOf response ''['' + 1)
                          (lastIndexOf response '']'');
               nums = map parseInt (split CHR '':'' posStr);
               line = (case js_index nums (Num 0) of Some v \<Rightarrow> v | None \<Rightarrow> Undefined);
               pos = (case js_index nums (Num 1) of Some v \<Rightarrow> v | None \<Rightarrow> Undefined)
           in case ed of
                None \<Rightarrow> Inl TypeError
              | Some val \<Rightarrow>
                 (case js_index (split CHR 0x0A val) (js_sub line (Num 1)) of
                    None \<Rightarrow> Inl TypeError
                  | Some text \<Rightarrow>
                      let startPos = pos;
                          errLen = indexOf (substring text (toInteger pos) (int (length text)))
                                     '' '';
                          endPos = (if errLen \<noteq> - 1
                                    then js_add (js_add (Num errLen) pos) (Num 1)
                                    else Num (int (length text) + 1))
                      in Inr (Some \<lparr>startLineNumber = line, endLineNumber = line,
                            startColumn = startPos, endColumn = endPos,
                            message = body, severity = Error\<rparr>)))"

section \<open>The component and its collaborators\<close>

datatype ButtonStates = READY | PENDING | ERROR

type_synonym QueryId = string

type_synonym queryFlags = "(string \<times> string) list"

record QueryRequestBodyType =
  query :: string
  jobConfig :: "queryFlags option"
  dryRunOnly :: bool

text \<open>
  One call of \<open>pagedQueryService.request(body, callback, interval)\<close>. The callback is the one of
  \<open>handleQuery\<close> when \<open>dryRunOnly\<close> is false and the one of \<open>checkSQL\<close> when it is true;
  \<open>checkSQL\<close> passes no interval.
\<close>

record request =
  body :: QueryRequestBodyType
  pollInterval :: "nat option"

text \<open>
  A page of results, each field as \<open>JSON.parse\<close> decodes it; \<open>None\<close> is a field that is not
  JSON, on which \<open>JSON.parse\<close> throws.
\<close>

record QueryResponseType =
  resp_content :: "string list list option"
  resp_labels :: "string list option"
  resp_bytesProcessed :: "int option"

record QueryResult =
  content :: "string list list"
  labels :: "string list"
  result_bytesProcessed :: int
  result_queryId :: QueryId

text \<open>The calls of the three action creators the component receives as props.\<close>

datatype action =
    updateQueryResult QueryResult
  | resetQueryResult QueryId
  | deleteQueryEntry QueryId

datatype callback = CheckSQL | ResetButton

record timer =
  tid :: nat
  due :: nat
  cb :: callback

text \<open>
  The fields of the component (\<open>state\<close>, \<open>job\<close>, \<open>timeoutAlarm\<close>, \<open>queryId\<close>, \<open>props\<close>) and what it
  acts on: the text of the editor (\<open>None\<close> until \<open>handleEditorDidMount\<close> has set \<open>this.editor\<close>;
  \<open>monacoInstance\<close> is taken to be loaded by then), the markers of the model, the requests made
  to the paged service (a job handle is the position of its request), the handles \<open>cancel()\<close>
  was called on, the actions sent to the result store, the timers that are set, the clock in
  milliseconds, and the errors nothing catches (an exception of an event handler, a rejected
  promise of an \<open>async\<close> method).
\<close>

record QueryTextEditor =
  buttonState :: ButtonStates
  bytesProcessed :: "int option"
  errorMsg :: "string option"
  job :: "nat option"
  timeoutAlarm :: "nat option"
  queryId :: QueryId
  props_queryId :: QueryId
  props_queryFlags :: "queryFlags option"
  editor :: "string option"
  modelMarkers :: "IMarkerData list"
  requests :: "request list"
  cancelled :: "nat list"
  dispatched :: "action list"
  timers :: "timer list"
  nextTimer :: nat
  now :: nat
  uncaught :: "error list"

definition constructor :: "QueryId \<Rightarrow> queryFlags option \<Rightarrow> QueryTextEditor" where
  "constructor qid flags =
     \<lparr>buttonState = READY, bytesProcessed = None, errorMsg = None, job = None,
      timeoutAlarm = None, queryId = qid, props_queryId = qid, props_queryFlags = flags,
      editor = None, modelMarkers = [], requests = [], cancelled = [], dispatched = [],
      timers = [], nextTimer = 1, now = 0, uncaught = []\<rparr>"

text \<open>\<open>setTimeout\<close> gives a fresh positive identifier; \<open>clearTimeout\<close> removes the timer.\<close>

definition setTimeout :: "callback \<Rightarrow> nat \<Rightarrow> QueryTextEditor \<Rightarrow> nat \<times> QueryTextEditor" where
  "setTimeout c delay s =
     (nextTimer s,
      s\<lparr>timers := timers s @ [\<lparr>tid = nextTimer s, due = now s + delay, cb = c\<rparr>],
        nextTimer := nextTimer s + 1\<rparr>)"

definition clearTimeout :: "nat \<Rightarrow> QueryTextEditor \<Rightarrow> QueryTextEditor" where
  "clearTimeout i s = s\<lparr>timers := filter (\<lambda>t. tid t \<noteq> i) (timers s)\<rparr>"

text \<open>
  Modelled from the spec: \<open>cancel()\<close> of a job handle (utils/pagedAPI/pagedJob is not among the
  sources). It stops the polling, delivers no update to the callback, and is safe on a handle
  whose job has finished. The model records the handle.
\<close>

definition job_cancel :: "nat \<Rightarrow> QueryTextEditor \<Rightarrow> QueryTextEditor" where
  "job_cancel h s = s\<lparr>cancelled := cancelled s @ [h]\<rparr>"

definition handleCancel :: "QueryTextEditor \<Rightarrow> QueryTextEditor" where
  "handleCancel s = (case job s of Some h \<Rightarrow> job_cancel h s | None \<Rightarrow> s)"

definition handleQuery :: "QueryTextEditor \<Rightarrow> QueryTextEditor" where
  "handleQuery s0 =
     (let s = s0\<lparr>dispatched := dispatched s0 @ [resetQueryResult (props_queryId s0)]\<rparr>
      in case editor s of
           None \<Rightarrow> s\<lparr>uncaught := uncaught s @ [TypeError]\<rparr>
         | Some q \<Rightarrow>
             s\<lparr>buttonState := PENDING, bytesProcessed := None, errorMsg := None,
               job := Some (length (requests s)),
               requests := requests s @
                 [\<lparr>body = \<lparr>query = q, jobConfig = props_queryFlags s, dryRunOnly = False\<rparr>,
                   pollInterval = Some 2000\<rparr>]\<rparr>)"

definition handleButtonClick :: "QueryTextEditor \<Rightarrow> QueryTextEditor" where
  "handleButtonClick s =
     (case buttonState s of
        READY \<Rightarrow> handleQuery s
      | ERROR \<Rightarrow> handleQuery s
      | PENDING \<Rightarrow> handleCancel s)"

text \<open>
  What the paged service passes to a callback, \<open>(state, _, response)\<close>: \<open>JobState.Pending\<close>
  with a page of results, \<open>JobState.Fail\<close> with the error text, or \<open>JobState.Done\<close>.
\<close>

datatype update = UPending QueryResponseType | UFail string | UDone

text \<open>The callback \<open>handleQuery\<close> hands to the paged service.\<close>

fun handleQuery_callback :: "update \<Rightarrow> QueryTextEditor \<Rightarrow> QueryTextEditor" where
  "handleQuery_callback (UPending r) s =
     (case (resp_content r, resp_labels r, resp_bytesProcessed r) of
        (Some c, Some l, Some b) \<Rightarrow>
          s\<lparr>bytesProcessed := Some b,
            dispatched := dispatched s @
              [updateQueryResult \<lparr>content = c, labels = l, result_bytesProcessed = b,
                                  result_queryId = queryId s\<rparr>]\<rparr>
      | _ \<Rightarrow> s\<lparr>uncaught := uncaught s @ [SyntaxError]\<rparr>)"
| "handleQuery_callback (UFail msg) s =
     snd (setTimeout ResetButton 2000 (s\<lparr>buttonState := ERROR, errorMsg := Some msg\<rparr>))"
| "handleQuery_callback UDone s = s\<lparr>buttonState := READY\<rparr>"

definition resetMarkers :: "QueryTextEditor \<Rightarrow> QueryTextEditor" where
  "resetMarkers s = s\<lparr>modelMarkers := []\<rparr>"

definition checkSQL :: "QueryTextEditor \<Rightarrow> QueryTextEditor" where
  "checkSQL s =
     (case editor s of
        None \<Rightarrow> s\<lparr>uncaught := uncaught s @ [TypeError]\<rparr>
      | Some q \<Rightarrow>
          if q = [] then s
          else s\<lparr>requests := requests s @
                 [\<lparr>body = \<lparr>query = q, jobConfig = props_queryFlags s, dryRunOnly = True\<rparr>,
                   pollInterval = None\<rparr>]\<rparr>)"

text \<open>
  What a call of one of the two \<open>async\<close> parsing methods leaves behind: the marker it passes
  to \<open>setModelMarkers\<close> replaces the markers of the model, and a TypeError rejects a promise
  nobody awaits.
\<close>

fun after_async :: "error + IMarkerData option \<Rightarrow> QueryTextEditor \<Rightarrow> QueryTextEditor" where
  "after_async (Inl e) s = s\<lparr>uncaught := uncaught s @ [e]\<rparr>"
| "after_async (Inr None) s = s"
| "after_async (Inr (Some m)) s = s\<lparr>modelMarkers := [m]\<rparr>"

text \<open>The callback of \<open>checkSQL\<close>: only a \<open>Fail\<close> update does anything.\<close>

fun checkSQL_callback :: "update \<Rightarrow> QueryTextEditor \<Rightarrow> QueryTextEditor" where
  "checkSQL_callback (UFail res) s =
     after_async (handleNotFound res (editor s))
       (after_async (handleSyntaxError res (editor s)) s)"
| "checkSQL_callback _ s = s"

text \<open>The listener \<open>handleEditorDidMount\<close> registers with \<open>onKeyUp\<close>.\<close>

definition onKeyUp :: "QueryTextEditor \<Rightarrow> QueryTextEditor" where
  "onKeyUp s0 =
     (let s1 = (case timeoutAlarm s0 of
                  Some i \<Rightarrow> (clearTimeout i s0)\<lparr>errorMsg := None\<rparr>
                | None \<Rightarrow> s0);
          (i, s2) = setTimeout CheckSQL 1500 s1
      in resetMarkers (s2\<lparr>timeoutAlarm := Some i\<rparr>))"

definition handleEditorDidMount :: "string \<Rightarrow> QueryTextEditor \<Rightarrow> QueryTextEditor" where
  "handleEditorDidMount val s = checkSQL (s\<lparr>editor := Some val\<rparr>)"

definition componentWillUnmount :: "QueryTextEditor \<Rightarrow> QueryTextEditor" where
  "componentWillUnmount s = s\<lparr>dispatched := dispatched s @ [deleteQueryEntry (queryId s)]\<rparr>"

subsection \<open>Events\<close>

text \<open>
  A timer that fires runs its callback: the debounced \<open>checkSQL\<close>, or the reset of the button
  that the \<open>Fail\<close> branch arms.
\<close>

definition fire :: "timer \<Rightarrow> QueryTextEditor \<Rightarrow> QueryTextEditor" where
  "fire t s = (case cb t of CheckSQL \<Rightarrow> checkSQL s | ResetButton \<Rightarrow> s\<lparr>buttonState := READY\<rparr>)"

text \<open>
  \<open>d\<close> milliseconds pass: the timers that are due by then fire, the earliest first and timers
  of one instant in the order they were set. No callback sets or clears a timer, so the due
  timers are those of the starting state.
\<close>

definition elapse :: "nat \<Rightarrow> QueryTextEditor \<Rightarrow> QueryTextEditor" where
  "elapse d s =
     (let t' = now s + d;
          ready = sort_key due (filter (\<lambda>t. due t \<le> t') (timers s));
          s1 = s\<lparr>timers := filter (\<lambda>t. \<not> due t \<le> t') (timers s)\<rparr>
      in (foldl (\<lambda>a t. fire t a) s1 ready)\<lparr>now := t'\<rparr>)"

text \<open>
  An update of job \<open>h\<close> reaches the callback its request was made with.
  Modelled from the spec: the paged service (utils/pagedAPI/paged_service is not among the
  sources) delivers no update for a handle that was cancelled.
\<close>

definition deliver :: "nat \<Rightarrow> update \<Rightarrow> QueryTextEditor \<Rightarrow> QueryTextEditor" where
  "deliver h u s =
     (if h < length (requests s) \<and> h \<notin> set (cancelled s) then
        (if dryRunOnly (body (requests s ! h)) then checkSQL_callback u s
         else handleQuery_callback u s)
      else s)"

datatype event =
    Mount string
  | Click
  | Edit string
  | Update nat update
  | Elapse nat
  | Unmount

text \<open>
  \<open>Edit txt\<close> is a keystroke that leaves \<open>txt\<close> in the editor; there is no editor to type in
  before it is mounted.
\<close>

fun step :: "QueryTextEditor \<Rightarrow> event \<Rightarrow> QueryTextEditor" where
  "step s (Mount val) = handleEditorDidMount val s"
| "step s Click = handleButtonClick s"
| "step s (Edit txt) = (if editor s = None then s else onKeyUp (s\<lparr>editor := Some txt\<rparr>))"
| "step s (Update h u) = deliver h u s"
| "step s (Elapse d) = elapse d s"
| "step s Unmount = componentWillUnmount s"

definition run :: "QueryTextEditor \<Rightarrow> event list \<Rightarrow> QueryTextEditor" where
  "run s evs = foldl step s evs"

text \<open>
  The debounce discipline of \<open>onKeyUp\<close>: a \<open>checkSQL\<close> timer that is still set is the one
  \<open>timeoutAlarm\<close> names.
\<close>

definition debounce_inv :: "QueryTextEditor \<Rightarrow> bool" where
  "debounce_inv s = (\<forall>t\<in>set (timers s). cb t = CheckSQL \<longrightarrow> timeoutAlarm s = Some (tid t))"

text \<open>The request \<open>checkSQL\<close> makes for the text \<open>q\<close>, and the one \<open>handleQuery\<close> makes.\<close>

definition ValidationRequest :: "string \<Rightarrow> queryFlags option \<Rightarrow> request" where
  "ValidationRequest q flags =
     \<lparr>body = \<lparr>query = q, jobConfig = flags, dryRunOnly = True\<rparr>, pollInterval = None\<rparr>"

definition SubmissionRequest :: "string \<Rightarrow> queryFlags option \<Rightarrow> request" where
  "SubmissionRequest q flags =
     \<lparr>body = \<lparr>query = q, jobConfig = flags, dryRunOnly = False\<rparr>, pollInterval = Some 2000\<rparr>"

text \<open>The \<open>checkSQL\<close> timers among some timers.\<close>

definition checks :: "timer list \<Rightarrow> timer list" where
  "checks ts = filter (\<lambda>t. cb t = CheckSQL) ts"

section \<open>Facts about the string functions\<close>

lemma startsWith_prefix: "startsWith s p \<longleftrightarrow> prefix p s"
  unfolding startsWith_def prefix_def
  by (metis append_eq_conv_conj append_take_drop_id)

lemma startsWith_length: "startsWith s p \<Longrightarrow> length p \<le> length s"
  by (auto simp: startsWith_prefix prefix_def)

lemma dropWhile_append_keep:
  "ys \<noteq> [] \<Longrightarrow> \<not> P (hd ys) \<Longrightarrow> dropWhile P (xs @ ys) = dropWhile P xs @ ys"
  by (induction xs) (auto simp: neq_Nil_conv)

text \<open>A prefix that neither begins nor ends with white space is still there after \<open>trim\<close>.\<close>

lemma trim_keeps_prefix:
  assumes "startsWith r p" "p \<noteq> []" "\<not> isWhiteSpace (hd p)" "\<not> isWhiteSpace (last p)"
  shows "startsWith (trim r) p"
proof -
  from assms(1) obtain b where r: "r = p @ b" by (auto simp: startsWith_prefix prefix_def)
  have d1: "dropWhile isWhiteSpace (p @ b) = p @ b"
    using assms by (cases p) auto
  have d2: "dropWhile isWhiteSpace (rev b @ rev p) = dropWhile isWhiteSpace (rev b) @ rev p"
    using assms by (intro dropWhile_append_keep) (auto simp: hd_rev)
  have "trim r = rev (dropWhile isWhiteSpace (rev b @ rev p))"
    unfolding trim_def r d1 by simp
  also have "\<dots> = p @ rev (dropWhile isWhiteSpace (rev b))"
    unfolding d2 by simp
  finally have "trim r = p @ rev (dropWhile isWhiteSpace (rev b))" .
  then show ?thesis by (simp add: startsWith_prefix)
qed

lemma Not_found_survives_trim:
  "startsWith r ''Not found:'' \<Longrightarrow> startsWith (trim r) ''Not found:''"
  by (rule trim_keeps_prefix) (simp_all add: isWhiteSpace_def)

lemma Syntax_error_survives_trim:
  "startsWith r ''Syntax error:'' \<Longrightarrow> startsWith (trim r) ''Syntax error:''"
  by (rule trim_keeps_prefix) (simp_all add: isWhiteSpace_def)

subsection \<open>\<open>split\<close> and \<open>join\<close>\<close>

lemma split_nonempty: "split c s \<noteq> []"
  by (induction s) (auto simp: Let_def)

lemma split_no_sep: "c \<notin> set s \<Longrightarrow> split c s = [s]"
  by (induction s) (auto simp: Let_def)

lemma split_append_sep: "split c (a @ c # b) = split c a @ split c b"
  by (induction a) (auto simp: Let_def split_nonempty)

lemma split_append_no_sep: "c \<notin> set a \<Longrightarrow> split c (a @ c # b) = a # split c b"
  by (simp add: split_append_sep split_no_sep)

text \<open>The last piece of \<open>split\<close> is what follows the last separator.\<close>

lemma last_split_after_sep: "c \<notin> set b \<Longrightarrow> last (split c (a @ c # b)) = b"
  by (simp add: split_append_sep split_no_sep)

text \<open>Splitting the text of a model at line feeds gives its lines back.\<close>

lemma split_join: "ls \<noteq> [] \<Longrightarrow> \<forall>l\<in>set ls. c \<notin> set l \<Longrightarrow> split c (join c ls) = ls"
  by (induction c ls rule: join.induct) (auto simp: split_no_sep split_append_no_sep)

subsection \<open>\<open>indexOf\<close> finds the first occurrence\<close>

lemma indexOf_from_none:
  "indexOf_from s p k = - 1 \<Longrightarrow> 0 \<le> k \<Longrightarrow> i \<le> length s \<Longrightarrow> \<not> prefix p (drop i s)"
proof (induction s arbitrary: k i)
  case Nil
  then show ?case by (auto split: if_splits)
next
  case (Cons c cs)
  show ?case
  proof (cases i)
    case 0
    with Cons.prems show ?thesis by (auto simp: startsWith_prefix split: if_splits)
  next
    case (Suc i')
    with Cons.prems Cons.IH[of "k + 1" i'] show ?thesis
      by (auto split: if_splits)
  qed
qed

lemma indexOf_from_found:
  "indexOf_from s p k \<noteq> - 1 \<Longrightarrow> 0 \<le> k \<Longrightarrow>
     \<exists>j\<le>length s. indexOf_from s p k = k + int j \<and> prefix p (drop j s) \<and>
        (\<forall>i<j. \<not> prefix p (drop i s))"
proof (induction s arbitrary: k)
  case Nil
  then show ?case by (auto split: if_splits)
next
  case (Cons c cs)
  show ?case
  proof (cases "startsWith (c # cs) p")
    case True
    then show ?thesis by (intro exI[of _ 0]) (simp add: startsWith_prefix)
  next
    case False
    with Cons.prems have ne: "indexOf_from cs p (k + 1) \<noteq> - 1" and k1: "0 \<le> k + 1" by auto
    from Cons.IH[OF ne k1] obtain j where j: "j \<le> length cs"
      "indexOf_from cs p (k + 1) = k + 1 + int j" "prefix p (drop j cs)"
      "\<forall>i<j. \<not> prefix p (drop i cs)" by blast
    have "\<forall>i<Suc j. \<not> prefix p (drop i (c # cs))"
    proof (intro allI impI)
      fix i assume "i < Suc j"
      then show "\<not> prefix p (drop i (c # cs))"
        using False j(4) by (cases i) (auto simp: startsWith_prefix)
    qed
    with j False show ?thesis by (intro exI[of _ "Suc j"]) auto
  qed
qed

lemma indexOf_least:
  assumes "k \<le> length s" "prefix p (drop k s)" "\<forall>i<k. \<not> prefix p (drop i s)"
  shows "indexOf s p = int k"
proof -
  have ne: "indexOf_from s p 0 \<noteq> - 1"
    using indexOf_from_none[of s p 0 k] assms by auto
  from indexOf_from_found[OF ne] obtain j where j: "j \<le> length s"
    "indexOf_from s p 0 = int j" "prefix p (drop j s)" "\<forall>i<j. \<not> prefix p (drop i s)" by auto
  have "j = k" using assms j by (meson linorder_neqE_nat)
  with j show ?thesis by (simp add: indexOf_def)
qed

lemma indexOf_first:
  assumes "indexOf s p = int k"
  shows "k \<le> length s \<and> prefix p (drop k s) \<and> (\<forall>i<k. \<not> prefix p (drop i s))"
proof -
  from assms have ne: "indexOf_from s p 0 \<noteq> - 1" by (simp add: indexOf_def)
  from indexOf_from_found[OF ne] assms show ?thesis by (auto simp: indexOf_def)
qed

lemma sublist_drop_iff: "sublist p s \<longleftrightarrow> (\<exists>i\<le>length s. prefix p (drop i s))"
proof
  assume "sublist p s"
  then obtain a b where "s = a @ p @ b" by (auto simp: sublist_def)
  then show "\<exists>i\<le>length s. prefix p (drop i s)" by (intro exI[of _ "length a"]) auto
next
  assume "\<exists>i\<le>length s. prefix p (drop i s)"
  then obtain i b where "drop i s = p @ b" by (auto simp: prefix_def)
  then have "s = take i s @ p @ b" by (metis append_take_drop_id)
  then show "sublist p s" unfolding sublist_def by blast
qed

text \<open>\<open>indexOf\<close> gives \<open>-1\<close> exactly when the pattern occurs nowhere in the string.\<close>

lemma indexOf_absent: "indexOf s p = - 1 \<longleftrightarrow> \<not> sublist p s"
proof
  assume "indexOf s p = - 1"
  then show "\<not> sublist p s"
    using indexOf_from_none[of s p 0] by (auto simp: indexOf_def sublist_drop_iff)
next
  assume ns: "\<not> sublist p s"
  show "indexOf s p = - 1"
  proof (rule ccontr)
    assume "indexOf s p \<noteq> - 1"
    then have "indexOf_from s p 0 \<noteq> - 1" by (simp add: indexOf_def)
    from indexOf_from_found[OF this] ns show False by (auto simp: sublist_drop_iff)
  qed
qed

subsection \<open>\<open>substring\<close>\<close>

lemma substring_sublist: "sublist (substring s a b) s"
proof -
  obtain lo n where "substring s a b = take n (drop lo s)"
    by (simp add: substring_def Let_def)
  moreover have "s = take lo s @ take n (drop lo s) @ drop n (drop lo s)"
    by (metis append_take_drop_id)
  ultimately show ?thesis unfolding sublist_def by metis
qed

lemma substring_shorter:
  assumes "13 < length s"
  shows "length (substring s 13 k) < length s"
proof -
  define b where "b = max 0 (min k (int (length s)))"
  have b0: "0 \<le> b" and b1: "b \<le> int (length s)" by (simp_all add: b_def)
  have a: "max 0 (min 13 (int (length s))) = 13" using assms by simp
  have sub: "substring s 13 k = take (nat (max 13 b - min 13 b)) (drop (nat (min 13 b)) s)"
    unfolding substring_def Let_def a b_def[symmetric] ..
  show ?thesis
  proof (cases "b \<le> 13")
    case True
    then have "length (substring s 13 k) \<le> nat (13 - b)"
      unfolding sub by (simp add: max_absorb1 min_absorb2)
    also have "\<dots> \<le> 13" using b0 by simp
    finally show ?thesis using assms by simp
  next
    case False
    then have "length (substring s 13 k) \<le> length s - 13"
      unfolding sub by (simp add: max_absorb2 min_absorb1)
    then show ?thesis using assms by simp
  qed
qed

section \<open>The diagnostic parser\<close>

subsection \<open>The loop over the lines\<close>

lemma handleNotFound_loop_none:
  "\<forall>t\<in>set texts. indexOf t e = - 1 \<Longrightarrow> handleNotFound_loop texts e i acc = acc"
  by (induction texts arbitrary: i acc) (auto simp: Let_def split: prod.splits)

text \<open>The loop ends with the last line that contains the identifier.\<close>

lemma handleNotFound_loop_last:
  "j < length texts \<Longrightarrow> indexOf (texts ! j) e \<noteq> - 1 \<Longrightarrow>
   \<forall>m. j < m \<and> m < length texts \<longrightarrow> indexOf (texts ! m) e = - 1 \<Longrightarrow>
   handleNotFound_loop texts e i acc = (i + int j + 1, indexOf (texts ! j) e)"
proof (induction texts arbitrary: j i acc)
  case Nil
  then show ?case by simp
next
  case (Cons t ts)
  obtain l p where acc: "acc = (l, p)" by (cases acc)
  show ?case
  proof (cases j)
    case 0
    have "\<forall>u\<in>set ts. indexOf u e = - 1"
    proof
      fix u assume "u \<in> set ts"
      then obtain m where "m < length ts" "ts ! m = u" by (auto simp: in_set_conv_nth)
      with Cons.prems(3)[rule_format, of "Suc m"] 0 show "indexOf u e = - 1" by auto
    qed
    with Cons.prems 0 acc show ?thesis by (simp add: handleNotFound_loop_none)
  next
    case (Suc j')
    have "\<forall>m. j' < m \<and> m < length ts \<longrightarrow> indexOf (ts ! m) e = - 1"
      using Cons.prems(3) Suc by (metis Suc_less_eq length_Cons nth_Cons_Suc)
    with Cons.IH[of j'] Cons.prems Suc acc show ?thesis by (simp add: Let_def)
  qed
qed

subsection \<open>The three outcomes of each method\<close>

lemma handleNotFound_Some:
  assumes "startsWith (trim response) ''Not found:''"
    and "js_index (split CHR '' '' (trim response)) (Num 3) = Some tok"
  shows "handleNotFound response (Some val) =
     (let errStr = last (split CHR '':'' tok);
          lp = handleNotFound_loop (split CHR 0x0A val) errStr 0 (- 1, - 1)
      in Inr (Some \<lparr>startLineNumber = Num (fst lp), endLineNumber = Num (fst lp),
            startColumn = Num (snd lp), endColumn = Num (snd lp + int (length errStr)),
            message = trim response, severity = Error\<rparr>))"
  using assms unfolding handleNotFound_def by (simp add: Let_def split: prod.splits)

lemma handleNotFound_shape:
  "handleNotFound r ed = Inr None \<and> \<not> startsWith (trim r) ''Not found:'' \<or>
   handleNotFound r ed = Inl TypeError \<and> startsWith (trim r) ''Not found:'' \<or>
   (\<exists>l c e. handleNotFound r ed =
       Inr (Some \<lparr>startLineNumber = Num l, endLineNumber = Num l, startColumn = Num c,
                  endColumn = Num e, message = trim r, severity = Error\<rparr>) \<and>
       startsWith (trim r) ''Not found:'')"
  unfolding handleNotFound_def Let_def
  by (simp split: option.split prod.split)

lemma handleSyntaxError_shape:
  "handleSyntaxError r ed = Inr None \<and> \<not> startsWith (trim r) ''Syntax error:'' \<or>
   handleSyntaxError r ed = Inl TypeError \<and> startsWith (trim r) ''Syntax error:'' \<or>
   (\<exists>l c e. handleSyntaxError r ed =
       Inr (Some \<lparr>startLineNumber = l, endLineNumber = l, startColumn = c, endColumn = e,
                  message = substring (trim r) 13 (lastIndexOf (trim r) ''at''),
                  severity = Error\<rparr>) \<and> startsWith (trim r) ''Syntax error:'')"
  unfolding handleSyntaxError_def Let_def
  by (simp split: option.split)

text \<open>
  When the methods raise, on a mounted editor: \<open>handleNotFound\<close> on a "Not found:" text of
  fewer than four pieces, \<open>handleSyntaxError\<close> on a "Syntax error:" text whose line number,
  read from between the last \<open>[\<close> and the last \<open>]\<close>, is not a line of the buffer.
\<close>

lemma handleNotFound_TypeError_iff:
  "handleNotFound r (Some val) = Inl TypeError \<longleftrightarrow>
     startsWith (trim r) ''Not found:'' \<and> length (split CHR '' '' (trim r)) < 4"
  unfolding handleNotFound_def by (auto simp: Let_def split: option.splits prod.splits if_splits)

lemma handleSyntaxError_TypeError_iff:
  "handleSyntaxError r (Some val) = Inl TypeError \<longleftrightarrow>
     startsWith (trim r) ''Syntax error:'' \<and>
     js_index (split CHR 0x0A val)
       (js_sub (parseInt (hd (split CHR '':''
          (substring (trim r) (lastIndexOf (trim r) ''['' + 1) (lastIndexOf (trim r) '']'')))))
         (Num 1)) = None"
  unfolding handleSyntaxError_def
  by (auto simp: Let_def split_nonempty hd_map hd_conv_nth split: option.splits if_splits)

lemma handleSyntaxError_prompt_only:
  assumes "trim r = ''Syntax error:''"
  shows "handleSyntaxError r ed = Inl TypeError"
proof -
  have sw: "startsWith ''Syntax error:'' ''Syntax error:''" by (simp add: startsWith_def)
  have nums: "map parseInt (split CHR '':'' (substring ''Syntax error:''
      (lastIndexOf ''Syntax error:'' ''['' + 1) (lastIndexOf ''Syntax error:'' '']''))) = [NaN]"
    by code_simp
  show ?thesis
    unfolding handleSyntaxError_def assms Let_def nums using sw
    by (cases ed) simp_all
qed

subsection \<open>Malformed texts\<close>

text \<open>
  Claim C1 says that the parser is total: on every error text, malformed ones included, it
  does not throw and gives one diagnostic or none. The component does throw. On a
  "Not found:" text with fewer than four pieces \<open>handleNotFound\<close> calls \<open>split\<close> on
  \<open>undefined\<close>; on a "Syntax error:" text without a locator, or with one that names a line the
  buffer does not have, \<open>handleSyntaxError\<close> calls \<open>substring\<close> on \<open>undefined\<close>. Each is a
  TypeError; the methods being \<open>async\<close>, it rejects a promise that nothing handles, and the
  markers stay as they were.
\<close>

theorem parser_raises_on_malformed_text:
  "handleNotFound ''Not found: x'' (Some ''SELECT 1'') = Inl TypeError \<and>
   handleSyntaxError ''Syntax error: bad token'' (Some ''SELECT 1'') = Inl TypeError \<and>
   handleSyntaxError ''Syntax error: bad token at [3:5]'' (Some ''SELECT 1'') = Inl TypeError \<and>
   checkSQL_callback (UFail ''Syntax error: bad token at [3:5]'')
       ((constructor ''q'' None)\<lparr>editor := Some ''SELECT 1''\<rparr>) =
     (constructor ''q'' None)\<lparr>editor := Some ''SELECT 1'', uncaught := [TypeError]\<rparr>"
  by code_simp

subsection \<open>The "Syntax error:" example\<close>

text \<open>
  Claim C3 gives the diagnostic of "Syntax error: bad token at [3:5]" over the lines "a", "bb",
  "ccc ddd": line 3, start column 5, message "bad token ", and the end column from the first
  space at or after column 5, or the length of the line plus 1. The message the component
  gives is not "bad token ": it starts right after the colon of the prefix, with the space
  that follows it.
\<close>

theorem syntax_error_example_counterexample:
  "handleSyntaxError ''Syntax error: bad token at [3:5]''
     (Some (join CHR 0x0A [''a'', ''bb'', ''ccc ddd''])) =
   Inr (Some \<lparr>startLineNumber = Num 3, endLineNumber = Num 3, startColumn = Num 5,
              endColumn = Num 8, message = '' bad token '', severity = Error\<rparr>) \<and>
   '' bad token '' \<noteq> ''bad token ''"
  by code_simp

text \<open>
  Claim C3 as amended: the diagnostic has line 3, start column 5, the message " bad token "
  (what stands between the prefix "Syntax error:" and the last "at", the leading space
  included) and end column 8, the length of line 3 plus 1, since line 3 has no space from
  offset 5 on.
\<close>

theorem syntax_error_example:
  "handleSyntaxError ''Syntax error: bad token at [3:5]''
     (Some (join CHR 0x0A [''a'', ''bb'', ''ccc ddd''])) =
   Inr (Some \<lparr>startLineNumber = Num 3, endLineNumber = Num 3, startColumn = Num 5,
              endColumn = Num (int (length ''ccc ddd'') + 1),
              message = substring ''Syntax error: bad token at [3:5]'' 13 24,
              severity = Error\<rparr>) \<and>
   substring ''Syntax error: bad token at [3:5]'' 13 24 = '' bad token '' \<and>
   lastIndexOf ''Syntax error: bad token at [3:5]'' ''at'' = 24 \<and>
   \<not> sublist '' '' (drop 5 ''ccc ddd'')"
  by code_simp

subsection \<open>The "Not found:" format\<close>

text \<open>
  Claim C4 takes the identifier from the 4th whitespace-separated token. The component
  splits at every single space instead, so two spaces in a row make an empty piece. In
  "Not found: Table  p:tbl" the 4th whitespace-separated token is "p:tbl" and the identifier
  would be "tbl", found at offset 0 of the buffer "tbl" and ending at column 3; the component
  takes the empty 4th piece and marks columns 0 to 0.
\<close>

theorem not_found_tokens_counterexample:
  "js_index (whitespace_separated_tokens ''Not found: Table  p:tbl'') (Num 3) = Some ''p:tbl'' \<and>
   last (split CHR '':'' ''p:tbl'') = ''tbl'' \<and>
   handleNotFound ''Not found: Table  p:tbl'' (Some ''tbl'') =
     Inr (Some \<lparr>startLineNumber = Num 1, endLineNumber = Num 1, startColumn = Num 0,
                endColumn = Num 0, message = ''Not found: Table  p:tbl'',
                severity = Error\<rparr>) \<and>
   (0::int) + int (length ''tbl'') \<noteq> 0"
  by code_simp

text \<open>
  Claim C4 as amended: for every error text that begins with "Not found:" and, once trimmed,
  has a 4th piece \<open>tok\<close> when split at every space, the identifier \<open>errStr\<close> is the last piece
  of \<open>tok\<close> split at colons. If line \<open>j\<close> (counted from 0) of the buffer is the last line that
  contains \<open>errStr\<close>, and \<open>k\<close> is the offset of its first occurrence in that line, the
  diagnostic is on line \<open>j + 1\<close> with start column \<open>k\<close> and end column \<open>k\<close> plus the length
  of \<open>errStr\<close>.
\<close>

theorem handleNotFound_last_matching_line:
  assumes "startsWith response ''Not found:''"
    and "js_index (split CHR '' '' (trim response)) (Num 3) = Some tok"
    and "errStr = last (split CHR '':'' tok)"
    and "texts = split CHR 0x0A val"
    and "j < length texts"
    and "k \<le> length (texts ! j)"
    and "prefix errStr (drop k (texts ! j))"
    and "\<forall>i<k. \<not> prefix errStr (drop i (texts ! j))"
    and "\<forall>m. j < m \<and> m < length texts \<longrightarrow> \<not> sublist errStr (texts ! m)"
  shows "handleNotFound response (Some val) =
     Inr (Some \<lparr>startLineNumber = Num (int j + 1), endLineNumber = Num (int j + 1),
                startColumn = Num (int k), endColumn = Num (int k + int (length errStr)),
                message = trim response, severity = Error\<rparr>)"
proof -
  have ix: "indexOf (texts ! j) errStr = int k"
    using assms(6-8) by (rule indexOf_least)
  have later: "\<forall>m. j < m \<and> m < length texts \<longrightarrow> indexOf (texts ! m) errStr = - 1"
    using assms(9) by (simp add: indexOf_absent)
  have "handleNotFound_loop texts errStr 0 (- 1, - 1) = (0 + int j + 1, indexOf (texts ! j) errStr)"
    using assms(5) later by (intro handleNotFound_loop_last) (simp_all add: ix)
  then have lp: "handleNotFound_loop (split CHR 0x0A val) (last (split CHR '':'' tok)) 0 (- 1, - 1)
      = (int j + 1, int k)"
    using assms(3,4) ix by simp
  show ?thesis
    unfolding handleNotFound_Some[OF Not_found_survives_trim[OF assms(1)] assms(2)] Let_def lp
    using assms(3) by simp
qed

text \<open>
  The example of claim C4: the identifier "table" occurs only at offset 10 of line 2, and the
  diagnostic is on line 2, columns 10 to 15.
\<close>

theorem handleNotFound_last_matching_line_witness:
  "handleNotFound ''Not found: Table project:table''
     (Some (join CHR 0x0A [''SELECT *'', ''FROM data.table'', ''LIMIT 10''])) =
   Inr (Some \<lparr>startLineNumber = Num 2, endLineNumber = Num 2, startColumn = Num 10,
              endColumn = Num 15, message = ''Not found: Table project:table'',
              severity = Error\<rparr>)"
proof -
  let ?r = "''Not found: Table project:table''"
  let ?v = "join CHR 0x0A [''SELECT *'', ''FROM data.table'', ''LIMIT 10'']"
  let ?texts = "[''SELECT *'', ''FROM data.table'', ''LIMIT 10'']"
  have h1: "startsWith ?r ''Not found:''" by code_simp
  have h2: "js_index (split CHR '' '' (trim ?r)) (Num 3) = Some ''project:table''" by code_simp
  have h3: "''table'' = last (split CHR '':'' ''project:table'')" by code_simp
  have h4: "?texts = split CHR 0x0A ?v" by code_simp
  have h5: "1 < length ?texts" by simp
  have "indexOf (?texts ! 1) ''table'' = int 10" by code_simp
  from indexOf_first[OF this]
  have h6: "10 \<le> length (?texts ! 1)" and h7: "prefix ''table'' (drop 10 (?texts ! 1))"
    and h8: "\<forall>i<10. \<not> prefix ''table'' (drop i (?texts ! 1))" by blast+
  have "\<not> sublist ''table'' ''LIMIT 10''" by code_simp
  then have h9: "\<forall>m. 1 < m \<and> m < length ?texts \<longrightarrow> \<not> sublist ''table'' (?texts ! m)"
    by (auto simp: less_Suc_eq numeral_3_eq_3)
  have t: "trim ?r = ?r" by code_simp
  show ?thesis
    using handleNotFound_last_matching_line[OF h1 h2 h3 h4 h5 h6 h7 h8 h9] by (simp add: t)
qed

text \<open>
  A 4th piece without a colon is the identifier as a whole: for the error text
  "Not found: Table project.dataset.table" the component looks for "project.dataset.table",
  not for "table".
\<close>

lemma identifier_without_colon:
  "handleNotFound ''Not found: Table project.dataset.table''
     (Some (join CHR 0x0A [''SELECT *'', ''FROM data.table''])) =
   Inr (Some \<lparr>startLineNumber = Num (- 1), endLineNumber = Num (- 1), startColumn = Num (- 1),
              endColumn = Num 20, message = ''Not found: Table project.dataset.table'',
              severity = Error\<rparr>)"
  by code_simp

subsection \<open>Texts of neither format\<close>

text \<open>
  Claim C8 says that a text starting with neither "Not found:" nor "Syntax error:" gives no
  diagnostic. The component trims the text before it looks at the prefix, so a text that
  starts with a space and then "Not found:" starts with neither prefix and still gives a
  diagnostic, which replaces the markers.
\<close>

theorem unrecognized_prefix_counterexample:
  "\<not> startsWith '' Not found: Table p:tbl'' ''Not found:'' \<and>
   \<not> startsWith '' Not found: Table p:tbl'' ''Syntax error:'' \<and>
   handleNotFound '' Not found: Table p:tbl'' (Some ''tbl'') =
     Inr (Some \<lparr>startLineNumber = Num 1, endLineNumber = Num 1, startColumn = Num 0,
                endColumn = Num 3, message = ''Not found: Table p:tbl'',
                severity = Error\<rparr>) \<and>
   modelMarkers (checkSQL_callback (UFail '' Not found: Table p:tbl'')
       ((constructor ''q'' None)\<lparr>editor := Some ''tbl''\<rparr>)) =
     [\<lparr>startLineNumber = Num 1, endLineNumber = Num 1, startColumn = Num 0,
       endColumn = Num 3, message = ''Not found: Table p:tbl'', severity = Error\<rparr>] \<and>
   modelMarkers ((constructor ''q'' None)\<lparr>editor := Some ''tbl''\<rparr>) = []"
  by code_simp

text \<open>
  Claim C8 as amended: for every error text that, once trimmed of surrounding white space,
  starts with neither "Not found:" nor "Syntax error:", both methods return without a
  diagnostic, and the callback of the validation leaves the markers, and everything else,
  as they were.
\<close>

theorem unrecognized_prefix_no_diagnostic:
  assumes "\<not> startsWith (trim response) ''Not found:''"
    and "\<not> startsWith (trim response) ''Syntax error:''"
  shows "handleNotFound response ed = Inr None \<and> handleSyntaxError response ed = Inr None \<and>
         checkSQL_callback (UFail response) s = s"
  using assms by (simp add: handleNotFound_def handleSyntaxError_def)

theorem unrecognized_prefix_no_diagnostic_witness:
  "handleNotFound ''Access Denied: Table p:tbl'' (Some ''SELECT 1'') = Inr None \<and>
   handleSyntaxError ''Access Denied: Table p:tbl'' (Some ''SELECT 1'') = Inr None \<and>
   checkSQL_callback (UFail ''Access Denied: Table p:tbl'')
       ((constructor ''q'' None)\<lparr>editor := Some ''SELECT 1''\<rparr>) =
     (constructor ''q'' None)\<lparr>editor := Some ''SELECT 1''\<rparr>"
proof -
  have h1: "\<not> startsWith (trim ''Access Denied: Table p:tbl'') ''Not found:''" by code_simp
  have h2: "\<not> startsWith (trim ''Access Denied: Table p:tbl'') ''Syntax error:''" by code_simp
  show ?thesis using unrecognized_prefix_no_diagnostic[OF h1 h2] by simp
qed

subsection \<open>An identifier the buffer does not contain\<close>

text \<open>
  Claim C9: for every "Not found:" error text whose identifier, the last colon-separated
  piece of the 4th piece of the text, occurs in no line of the buffer, the component still
  emits a diagnostic, with line \<open>-1\<close>, start column \<open>-1\<close> and end column \<open>-1\<close> plus the length
  of the identifier.
\<close>

theorem handleNotFound_identifier_absent:
  assumes "startsWith (trim response) ''Not found:''"
    and "js_index (split CHR '' '' (trim response)) (Num 3) = Some tok"
    and "errStr = last (split CHR '':'' tok)"
    and "\<forall>text\<in>set (split CHR 0x0A val). \<not> sublist errStr text"
  shows "handleNotFound response (Some val) =
     Inr (Some \<lparr>startLineNumber = Num (- 1), endLineNumber = Num (- 1),
                startColumn = Num (- 1), endColumn = Num (- 1 + int (length errStr)),
                message = trim response, severity = Error\<rparr>)"
proof -
  have "handleNotFound_loop (split CHR 0x0A val) (last (split CHR '':'' tok)) 0 (- 1, - 1)
      = (- 1, - 1)"
    using assms(3,4) by (intro handleNotFound_loop_none) (simp add: indexOf_absent)
  then show ?thesis
    unfolding handleNotFound_Some[OF assms(1,2)] Let_def using assms(3) by simp
qed

theorem handleNotFound_identifier_absent_witness:
  "handleNotFound ''Not found: Table project:dataset.orders was not found in location US''
     (Some (join CHR 0x0A [''SELECT *'', ''FROM dataset.order''])) =
   Inr (Some \<lparr>startLineNumber = Num (- 1), endLineNumber = Num (- 1),
              startColumn = Num (- 1), endColumn = Num 13,
              message = ''Not found: Table project:dataset.orders was not found in location US'',
              severity = Error\<rparr>)"
proof -
  let ?r = "''Not found: Table project:dataset.orders was not found in location US''"
  let ?v = "join CHR 0x0A [''SELECT *'', ''FROM dataset.order'']"
  have t: "trim ?r = ?r" by code_simp
  have h1: "startsWith (trim ?r) ''Not found:''" by code_simp
  have h2: "js_index (split CHR '' '' (trim ?r)) (Num 3) = Some ''project:dataset.orders''"
    by code_simp
  have h3: "''dataset.orders'' = last (split CHR '':'' ''project:dataset.orders'')" by code_simp
  have h4: "\<forall>text\<in>set (split CHR 0x0A ?v). \<not> sublist ''dataset.orders'' text" by code_simp
  show ?thesis using handleNotFound_identifier_absent[OF h1 h2 h3 h4] by (simp add: t)
qed

subsection \<open>The message of a diagnostic\<close>

text \<open>
  Claim C10: whenever \<open>handleNotFound\<close> emits a diagnostic, its message is the whole trimmed
  error text and its severity is Error; whenever \<open>handleSyntaxError\<close> emits one, its message
  is a part of the trimmed error text, shorter than it.
\<close>

theorem not_found_message_is_whole_text:
  "(handleNotFound response ed = Inr (Some m) \<longrightarrow>
      message m = trim response \<and> severity m = Error) \<and>
   (handleSyntaxError response ed = Inr (Some m) \<longrightarrow>
      sublist (message m) (trim response) \<and> length (message m) < length (trim response) \<and>
      severity m = Error)"
proof (intro conjI impI)
  assume "handleNotFound response ed = Inr (Some m)"
  with handleNotFound_shape[of response ed]
  have "message m = trim response \<and> severity m = Error" by auto
  then show "message m = trim response" "severity m = Error" by simp_all
next
  assume a: "handleSyntaxError response ed = Inr (Some m)"
  let ?r = "trim response"
  from a handleSyntaxError_shape[of response ed]
  have sw: "startsWith ?r ''Syntax error:''"
    and msg: "message m = substring ?r 13 (lastIndexOf ?r ''at'')"
    and sev: "severity m = Error" by auto
  show "sublist (message m) ?r" unfolding msg by (rule substring_sublist)
  show "severity m = Error" by (rule sev)
  have len: "13 \<le> length ?r" using startsWith_length[OF sw] by simp
  have "length ?r \<noteq> 13"
  proof
    assume "length ?r = 13"
    with sw have "?r = ''Syntax error:''" by (simp add: startsWith_def)
    from handleSyntaxError_prompt_only[OF this, of ed] a show False by simp
  qed
  with len have "13 < length ?r" by simp
  then show "length (message m) < length ?r"
    unfolding msg by (rule substring_shorter)
qed

theorem not_found_message_is_whole_text_witness:
  "handleNotFound '' Not found: Table p:tbl was not found  '' (Some ''SELECT * FROM tbl'') =
     Inr (Some \<lparr>startLineNumber = Num 1, endLineNumber = Num 1, startColumn = Num 14,
                endColumn = Num 17, message = ''Not found: Table p:tbl was not found'',
                severity = Error\<rparr>) \<and>
   ''Not found: Table p:tbl was not found'' = trim '' Not found: Table p:tbl was not found  '' \<and>
   handleSyntaxError ''Syntax error: Unexpected end at [1:9]  '' (Some ''SELECT *'') =
     Inr (Some \<lparr>startLineNumber = Num 1, endLineNumber = Num 1, startColumn = Num 9,
                endColumn = Num 9, message = '' Unexpected end '', severity = Error\<rparr>) \<and>
   sublist '' Unexpected end '' (trim ''Syntax error: Unexpected end at [1:9]  '')"
proof -
  let ?m = "\<lparr>startLineNumber = Num 1, endLineNumber = Num 1, startColumn = Num 14,
            endColumn = Num 17, message = ''Not found: Table p:tbl was not found'',
            severity = Error\<rparr>"
  let ?n = "\<lparr>startLineNumber = Num 1, endLineNumber = Num 1, startColumn = Num 9,
            endColumn = Num 9, message = '' Unexpected end '', severity = Error\<rparr>"
  have h1: "handleNotFound '' Not found: Table p:tbl was not found  '' (Some ''SELECT * FROM tbl'')
     = Inr (Some ?m)" by code_simp
  have h2: "handleSyntaxError ''Syntax error: Unexpected end at [1:9]  '' (Some ''SELECT *'')
     = Inr (Some ?n)" by code_simp
  show ?thesis
    using not_found_message_is_whole_text[of "'' Not found: Table p:tbl was not found  ''"
        "Some ''SELECT * FROM tbl''" ?m] h1
      not_found_message_is_whole_text[of "''Syntax error: Unexpected end at [1:9]  ''"
        "Some ''SELECT *''" ?n] h2
    by simp
qed

section \<open>The job lifecycle controller\<close>

subsection \<open>The reset timer of a failed job\<close>

text \<open>
  Claim C2 asks that, when a failure is followed by a fresh submit before the 2000 ms reset
  timer fires, the stale timer does not later clobber the new state. The component never
  clears that timer (\<open>onKeyUp\<close> does clear its own before it sets a new one). After a
  submit, a failure, 1000 ms and a second submit the button is PENDING; 1000 ms later the
  timer of the first failure fires and makes it READY, although job 2 is still running and
  was not cancelled; the next click then submits a third job instead of cancelling.
\<close>

theorem stale_reset_timer_clobbers_pending:
  "buttonState (run (constructor ''q'' None)
      [Mount ''SELECT 1'', Click, Update 1 (UFail ''boom''), Elapse 1000, Click]) = PENDING \<and>
   buttonState (run (constructor ''q'' None)
      [Mount ''SELECT 1'', Click, Update 1 (UFail ''boom''), Elapse 1000, Click, Elapse 1000])
     = READY \<and>
   job (run (constructor ''q'' None)
      [Mount ''SELECT 1'', Click, Update 1 (UFail ''boom''), Elapse 1000, Click, Elapse 1000])
     = Some 2 \<and>
   cancelled (run (constructor ''q'' None)
      [Mount ''SELECT 1'', Click, Update 1 (UFail ''boom''), Elapse 1000, Click, Elapse 1000])
     = [] \<and>
   requests (run (constructor ''q'' None)
      [Mount ''SELECT 1'', Click, Update 1 (UFail ''boom''), Elapse 1000, Click, Elapse 1000,
       Click]) =
     [ValidationRequest ''SELECT 1'' None, SubmissionRequest ''SELECT 1'' None,
      SubmissionRequest ''SELECT 1'' None, SubmissionRequest ''SELECT 1'' None]"
  by code_simp

text \<open>
  The equality claim C2 gives as its test does hold: seen before the first timer fires, the
  state after submit, fail, submit again, done is READY, as it is after submit, done.
\<close>

lemma round_trip_before_timer:
  "buttonState (run (constructor ''q'' None)
      [Mount ''SELECT 1'', Click, Update 1 (UFail ''boom''), Elapse 1000, Click, Update 2 UDone])
     = READY \<and>
   buttonState (run (constructor ''q'' None) [Mount ''SELECT 1'', Click, Update 1 UDone]) = READY"
  by code_simp

lemma Done_gives_READY:
  assumes "h < length (requests s)" "h \<notin> set (cancelled s)"
    "\<not> dryRunOnly (body (requests s ! h))"
  shows "buttonState (step s (Update h UDone)) = READY"
  using assms by (simp add: deliver_def)

subsection \<open>Cancel\<close>

text \<open>
  Claim C5 says that cancel while the button is PENDING makes it READY at once, that cancel
  without a job handle does nothing, and that cancel of a completed job leaves the button as
  it is. \<open>handleCancel\<close> only calls \<open>cancel()\<close> on the job handle; unlike the \<open>Done\<close> branch of
  the callback it sets no state. With a handle that delivers no update once it is cancelled,
  the button is PENDING after the submit and stays PENDING after the click that cancels: a
  late \<open>Done\<close> of the job does not arrive, further clicks cancel again, 5000 ms change
  nothing, and no new request can be made.
\<close>

theorem cancel_leaves_button_pending:
  "buttonState (run (constructor ''q'' None) [Mount ''SELECT 1'', Click]) = PENDING \<and>
   job (run (constructor ''q'' None) [Mount ''SELECT 1'', Click]) = Some 1 \<and>
   buttonState (run (constructor ''q'' None) [Mount ''SELECT 1'', Click, Click]) = PENDING \<and>
   cancelled (run (constructor ''q'' None) [Mount ''SELECT 1'', Click, Click]) = [1] \<and>
   buttonState (run (constructor ''q'' None)
      [Mount ''SELECT 1'', Click, Click, Update 1 UDone, Click, Elapse 5000, Click]) = PENDING \<and>
   requests (run (constructor ''q'' None)
      [Mount ''SELECT 1'', Click, Click, Update 1 UDone, Click, Elapse 5000, Click]) =
     [ValidationRequest ''SELECT 1'' None, SubmissionRequest ''SELECT 1'' None]"
  by code_simp

text \<open>
  What \<open>handleCancel\<close> does in every state: it leaves the state of the button as it is,
  whether the job is running or has completed; when no job handle is held it does nothing at
  all; when one is held it calls \<open>cancel()\<close> on that handle and changes nothing else.
\<close>

lemma handleCancel_keeps_buttonState:
  "buttonState (handleCancel s) = buttonState s \<and>
   (job s = None \<longrightarrow> handleCancel s = s) \<and>
   (\<forall>h. job s = Some h \<longrightarrow> handleCancel s = s\<lparr>cancelled := cancelled s @ [h]\<rparr>)"
  by (simp add: handleCancel_def job_cancel_def split: option.split)

text \<open>
  The button can only leave PENDING through the callback: were the cancelled handle to
  report \<open>Done\<close>, the button would be READY.
\<close>

lemma Done_after_cancel_would_reset:
  "buttonState (handleQuery_callback UDone (handleCancel s)) = READY"
  by simp

text \<open>After \<open>cancel()\<close> no update of that job reaches the component.\<close>

lemma no_update_after_cancel:
  "job s = Some h \<Longrightarrow> step (handleCancel s) (Update h u) = handleCancel s"
  by (simp add: handleCancel_def job_cancel_def deliver_def)

subsection \<open>Submit\<close>




text \<open>A click before the editor is mounted resets the entry and then raises, in general.\<close>

lemma submit_before_mount:
  "handleButtonClick (constructor qid flags) =
     (constructor qid flags)\<lparr>dispatched := [resetQueryResult qid], uncaught := [TypeError]\<rparr>"
  by (simp add: handleButtonClick_def handleQuery_def constructor_def Let_def)

section \<open>The debounced validator\<close>

subsection \<open>What firing timers and key strokes change\<close>

lemma fire_frame:
  "editor (fire t s) = editor s" "props_queryFlags (fire t s) = props_queryFlags s"
  "timers (fire t s) = timers s" "timeoutAlarm (fire t s) = timeoutAlarm s"
  "nextTimer (fire t s) = nextTimer s" "now (fire t s) = now s"
  by (simp_all add: fire_def checkSQL_def split: callback.split option.split)

lemma fire_requests:
  "requests (fire t s) = requests s @
     (case editor s of
        Some q \<Rightarrow> if cb t = CheckSQL \<and> q \<noteq> [] then [ValidationRequest q (props_queryFlags s)] else []
      | None \<Rightarrow> [])"
  by (simp add: fire_def checkSQL_def ValidationRequest_def split: callback.split option.split)

lemma fire_all_frame:
  "editor (foldl (\<lambda>a t. fire t a) s ts) = editor s \<and>
   props_queryFlags (foldl (\<lambda>a t. fire t a) s ts) = props_queryFlags s \<and>
   timers (foldl (\<lambda>a t. fire t a) s ts) = timers s \<and>
   timeoutAlarm (foldl (\<lambda>a t. fire t a) s ts) = timeoutAlarm s \<and>
   nextTimer (foldl (\<lambda>a t. fire t a) s ts) = nextTimer s \<and>
   now (foldl (\<lambda>a t. fire t a) s ts) = now s"
  by (induction ts arbitrary: s) (simp_all add: fire_frame)

text \<open>Each \<open>checkSQL\<close> timer that fires makes one request, unless the editor is empty.\<close>

lemma fire_all_requests:
  "requests (foldl (\<lambda>a t. fire t a) s ts) = requests s @
     (case editor s of
        Some q \<Rightarrow> if q = [] then []
                  else map (\<lambda>_. ValidationRequest q (props_queryFlags s)) (checks ts)
      | None \<Rightarrow> [])"
proof (induction ts arbitrary: s)
  case Nil
  then show ?case by (simp add: checks_def split: option.split)
next
  case (Cons t ts)
  show ?case
    unfolding foldl_Cons Cons.IH fire_frame fire_requests
    by (simp add: checks_def split: option.split)
qed

lemma elapse_frame:
  "editor (elapse d s) = editor s" "props_queryFlags (elapse d s) = props_queryFlags s"
  "timeoutAlarm (elapse d s) = timeoutAlarm s" "now (elapse d s) = now s + d"
  "timers (elapse d s) = filter (\<lambda>t. \<not> due t \<le> now s + d) (timers s)"
  by (simp_all add: elapse_def Let_def fire_all_frame)

lemma elapse_requests:
  "requests (elapse d s) = requests s @
     (case editor s of
        Some q \<Rightarrow> if q = [] then []
                  else map (\<lambda>_. ValidationRequest q (props_queryFlags s))
                         (checks (filter (\<lambda>t. due t \<le> now s + d) (timers s)))
      | None \<Rightarrow> [])"
proof -
  have len: "length (checks (sort_key due ts)) = length (checks ts)" for ts
    by (simp add: checks_def filter_sort)
  have "map (\<lambda>_. r) (checks (sort_key due ts)) = map (\<lambda>_. r) (checks ts)" for r :: request and ts
    using len[of ts] by (simp add: map_replicate_const)
  then show ?thesis
    by (simp add: elapse_def Let_def fire_all_requests fire_all_frame split: option.split)
qed

lemma onKeyUp_frame:
  "editor (onKeyUp s) = editor s" "props_queryFlags (onKeyUp s) = props_queryFlags s"
  "requests (onKeyUp s) = requests s" "now (onKeyUp s) = now s"
  "timeoutAlarm (onKeyUp s) = Some (nextTimer s)"
  by (simp_all add: onKeyUp_def setTimeout_def clearTimeout_def resetMarkers_def Let_def
        split: option.split)

lemma onKeyUp_timers:
  "timers (onKeyUp s) =
     filter (\<lambda>t. Some (tid t) \<noteq> timeoutAlarm s) (timers s) @
       [\<lparr>tid = nextTimer s, due = now s + 1500, cb = CheckSQL\<rparr>]"
  by (simp add: onKeyUp_def setTimeout_def clearTimeout_def resetMarkers_def Let_def
        split: option.split)

text \<open>After a key stroke the only \<open>checkSQL\<close> timer is the new one.\<close>

lemma onKeyUp_checks:
  assumes "debounce_inv s"
  shows "checks (timers (onKeyUp s)) = [\<lparr>tid = nextTimer s, due = now s + 1500, cb = CheckSQL\<rparr>]"
proof -
  have "filter (\<lambda>t. cb t = CheckSQL) (filter (\<lambda>t. Some (tid t) \<noteq> timeoutAlarm s) (timers s)) = []"
    using assms by (auto simp: debounce_inv_def filter_empty_conv)
  then show ?thesis by (simp add: onKeyUp_timers checks_def)
qed

subsection \<open>The debounce discipline holds in every run\<close>

lemma debounce_inv_step: "debounce_inv s \<Longrightarrow> debounce_inv (step s e)"
proof (cases e)
  case (Mount v)
  then show ?thesis if "debounce_inv s"
    using that by (simp add: debounce_inv_def handleEditorDidMount_def checkSQL_def split: option.split)
next
  case Click
  then show ?thesis if "debounce_inv s"
    using that
    by (simp add: debounce_inv_def handleButtonClick_def handleQuery_def handleCancel_def
          job_cancel_def Let_def split: ButtonStates.split option.split)
next
  case (Edit x)
  show ?thesis if inv: "debounce_inv s"
  proof (cases "editor s")
    case None
    with Edit inv show ?thesis by simp
  next
    case (Some v)
    have "debounce_inv (onKeyUp a)" if "debounce_inv a" for a
      using that by (auto simp: debounce_inv_def onKeyUp_timers onKeyUp_frame)
    moreover have "debounce_inv (s\<lparr>editor := Some x\<rparr>)"
      using inv by (simp add: debounce_inv_def)
    ultimately show ?thesis using Edit Some by simp
  qed
next
  case (Update h u)
  have a: "debounce_inv (after_async r a)" if "debounce_inv a" for r a
    using that by (cases "(r, a)" rule: after_async.cases) (simp_all add: debounce_inv_def)
  have b: "debounce_inv (checkSQL_callback u a)" if "debounce_inv a" for a
    using that by (cases u) (simp_all add: a)
  have c: "debounce_inv (handleQuery_callback u a)" if "debounce_inv a" for a
    using that
    by (cases u)
       (auto simp: debounce_inv_def setTimeout_def split: option.split prod.split)
  show ?thesis if "debounce_inv s"
    using that Update b c by (simp add: deliver_def)
next
  case (Elapse d)
  then show ?thesis if "debounce_inv s"
    using that by (auto simp: debounce_inv_def elapse_frame)
next
  case Unmount
  then show ?thesis if "debounce_inv s"
    using that by (simp add: debounce_inv_def componentWillUnmount_def)
qed

lemma debounce_inv_run: "debounce_inv s \<Longrightarrow> debounce_inv (run s evs)"
  unfolding run_def by (induction evs arbitrary: s) (simp_all add: debounce_inv_step)

lemma debounce_inv_constructor: "debounce_inv (constructor qid flags)"
  by (simp add: debounce_inv_def constructor_def)

subsection \<open>Two edits within the delay\<close>

lemma two_edits:
  assumes inv: "debounce_inv s" and ed: "editor s = Some x0" and d1: "d1 < 1500" and d2: "1500 \<le> d2"
  shows "requests (run s [Edit x1, Elapse d1, Edit x2, Elapse d2]) =
     requests s @ (if x2 = [] then [] else [ValidationRequest x2 (props_queryFlags s)])"
proof -
  define s0 where "s0 = s\<lparr>editor := Some x1\<rparr>"
  define s1 where "s1 = onKeyUp s0"
  define s2 where "s2 = elapse d1 s1"
  define s2' where "s2' = s2\<lparr>editor := Some x2\<rparr>"
  define s3 where "s3 = onKeyUp s2'"
  define s4 where "s4 = elapse d2 s3"
  have run: "run s [Edit x1, Elapse d1, Edit x2, Elapse d2] = s4"
    by (simp add: run_def ed s4_def s3_def s2'_def s2_def s1_def s0_def elapse_frame onKeyUp_frame)
  have inv0: "debounce_inv s0" using inv by (simp add: s0_def debounce_inv_def)
  have c1: "checks (timers s1) = [\<lparr>tid = nextTimer s0, due = now s0 + 1500, cb = CheckSQL\<rparr>]"
    unfolding s1_def by (rule onKeyUp_checks[OF inv0])
  have "checks (filter (\<lambda>t. due t \<le> now s1 + d1) (timers s1)) =
        filter (\<lambda>t. due t \<le> now s1 + d1) (checks (timers s1))"
    by (simp add: checks_def conj_commute)
  also have "\<dots> = []" unfolding c1 using d1 by (simp add: s1_def onKeyUp_frame)
  finally have none1: "checks (filter (\<lambda>t. due t \<le> now s1 + d1) (timers s1)) = []" .
  have r1: "requests s1 = requests s" by (simp add: s1_def s0_def onKeyUp_frame)
  have r2: "requests s2 = requests s"
    unfolding s2_def elapse_requests none1 by (simp add: r1 split: option.split)
  have inv2': "debounce_inv s2'"
    using debounce_inv_step[OF debounce_inv_step[OF inv, of "Edit x1"], of "Elapse d1"]
    by (simp add: ed s2'_def s2_def s1_def s0_def debounce_inv_def)
  have c3: "checks (timers s3) = [\<lparr>tid = nextTimer s2', due = now s2' + 1500, cb = CheckSQL\<rparr>]"
    unfolding s3_def by (rule onKeyUp_checks[OF inv2'])
  have "checks (filter (\<lambda>t. due t \<le> now s3 + d2) (timers s3)) =
        filter (\<lambda>t. due t \<le> now s3 + d2) (checks (timers s3))"
    by (simp add: checks_def conj_commute)
  also have "\<dots> = [\<lparr>tid = nextTimer s2', due = now s2' + 1500, cb = CheckSQL\<rparr>]"
    unfolding c3 using d2 by (simp add: s3_def onKeyUp_frame)
  finally have one: "length (checks (filter (\<lambda>t. due t \<le> now s3 + d2) (timers s3))) = 1"
    by simp
  have e3: "editor s3 = Some x2" by (simp add: s3_def s2'_def onKeyUp_frame)
  have f3: "props_queryFlags s3 = props_queryFlags s"
    by (simp add: s3_def s2'_def s2_def s1_def s0_def onKeyUp_frame elapse_frame)
  have r3: "requests s3 = requests s" by (simp add: s3_def s2'_def onKeyUp_frame r2)
  have "requests s4 = requests s @ (if x2 = [] then [] else [ValidationRequest x2 (props_queryFlags s)])"
    unfolding s4_def elapse_requests e3 f3 r3 using one
    by (simp add: map_replicate_const)
  then show ?thesis by (simp add: run)
qed

text \<open>
  Claim C7: in every state a run of the component reaches with the editor mounted, two edits
  less than 1500 ms apart, followed by at least 1500 ms without an edit, make exactly one
  request, a dry run that carries the text of the second edit; and when that text is empty
  the timer fires without making any request.
\<close>

theorem debounce_two_edits:
  assumes "s = run (constructor qid flags) evs"
    and "editor s = Some x0" and "d1 < 1500" and "1500 \<le> d2"
  shows "requests (run s [Edit x1, Elapse d1, Edit x2, Elapse d2]) =
           requests s @ (if x2 = [] then [] else [ValidationRequest x2 (props_queryFlags s)]) \<and>
         dryRunOnly (body (ValidationRequest x2 (props_queryFlags s))) = True \<and>
         query (body (ValidationRequest x2 (props_queryFlags s))) = x2"
proof -
  have "debounce_inv s"
    unfolding assms(1) by (intro debounce_inv_run debounce_inv_constructor)
  then show ?thesis using assms(2-4) by (simp add: two_edits ValidationRequest_def)
qed

theorem debounce_two_edits_witness:
  "requests (run (run (constructor ''q'' None) [Mount ''SELECT 1'', Edit ''SELEC''])
      [Edit ''SELECT'', Elapse 1000, Edit ''SELECT 2'', Elapse 1500]) =
     [ValidationRequest ''SELECT 1'' None, ValidationRequest ''SELECT 2'' None] \<and>
   requests (run (run (constructor ''q'' None) [Mount ''SELECT 1'', Edit ''SELEC''])
      [Edit ''SELECT'', Elapse 1000, Edit [], Elapse 1500]) =
     [ValidationRequest ''SELECT 1'' None]"
proof -
  let ?s = "run (constructor ''q'' None) [Mount ''SELECT 1'', Edit ''SELEC'']"
  have h2: "editor ?s = Some ''SELEC''" by code_simp
  have h3: "(1000::nat) < 1500" and h4: "(1500::nat) \<le> 1500" by simp_all
  have r: "requests ?s = [ValidationRequest ''SELECT 1'' None]" by code_simp
  have f: "props_queryFlags ?s = None" by code_simp
  show ?thesis
    using debounce_two_edits[OF refl h2 h3 h4, of "''SELECT''" "''SELECT 2''"]
      debounce_two_edits[OF refl h2 h3 h4, of "''SELECT''" "[]"]
    by (simp add: r f)
qed

text \<open>Edits 1500 ms apart or more are validated one by one.\<close>

lemma two_slow_edits:
  "requests (run (constructor ''q'' None)
      [Mount ''SELECT 1'', Edit ''SELECT'', Elapse 1500, Edit ''SELECT 2'', Elapse 1500]) =
     [ValidationRequest ''SELECT 1'' None, ValidationRequest ''SELECT'' None,
      ValidationRequest ''SELECT 2'' None]"
  by code_simp

end
